theory Spec2Isabelle
  imports Main "HOL-Library.Sublist" "HOL-Library.Finite_Map" "HOL-Library.Char_ord"
begin

section \<open>The Go library functions the program calls\<close>

text \<open>
  Go strings are byte sequences; a \<^typ>\<open>string\<close> here is the list of those bytes.
  \<open>strings.Contains s substr\<close> holds when \<open>substr\<close> occurs in \<open>s\<close> as a contiguous
  block.
\<close>

fun Contains :: "string \<Rightarrow> string \<Rightarrow> bool" where
  "Contains [] substr = (substr = [])"
| "Contains (c # cs) substr = (prefix substr (c # cs) \<or> Contains cs substr)"

text \<open>
  \<open>strings.Split s sep\<close> for a one-byte separator, the only way the program calls it
  (\<open>","\<close> and \<open>":"\<close>): a string with \<open>n\<close> separators gives \<open>n + 1\<close> fields.
\<close>

fun Split :: "string \<Rightarrow> char \<Rightarrow> string list" where
  "Split [] sep = [ [] ]"
| "Split (c # cs) sep =
     (if c = sep then [] # Split cs sep
      else (case Split cs sep of [] \<Rightarrow> [ [c] ] | p # ps \<Rightarrow> (c # p) # ps))"

text \<open>
  \<open>strings.TrimSpace\<close> removes leading and trailing white space as Unicode defines it
  (\<open>unicode.IsSpace\<close>). \<open>space_runes\<close> lists the UTF-8 encodings of those runes: the six
  ASCII ones, U+0085, U+00A0, U+1680, U+2000 to U+200A, U+2028, U+2029, U+202F, U+205F and
  U+3000. A byte that starts no such encoding stops the trimming, as an invalid or a
  non-space rune does in Go.
\<close>

definition space_runes :: "string list" where
  "space_runes =
     [ [CHR 0x09], [CHR 0x0A], [CHR 0x0B], [CHR 0x0C], [CHR 0x0D], [CHR 0x20],
      [CHR 0xC2, CHR 0x85], [CHR 0xC2, CHR 0xA0], [CHR 0xE1, CHR 0x9A, CHR 0x80],
      [CHR 0xE2, CHR 0x80, CHR 0x80], [CHR 0xE2, CHR 0x80, CHR 0x81],
      [CHR 0xE2, CHR 0x80, CHR 0x82], [CHR 0xE2, CHR 0x80, CHR 0x83],
      [CHR 0xE2, CHR 0x80, CHR 0x84], [CHR 0xE2, CHR 0x80, CHR 0x85],
      [CHR 0xE2, CHR 0x80, CHR 0x86], [CHR 0xE2, CHR 0x80, CHR 0x87],
      [CHR 0xE2, CHR 0x80, CHR 0x88], [CHR 0xE2, CHR 0x80, CHR 0x89],
      [CHR 0xE2, CHR 0x80, CHR 0x8A], [CHR 0xE2, CHR 0x80, CHR 0xA8],
      [CHR 0xE2, CHR 0x80, CHR 0xA9], [CHR 0xE2, CHR 0x80, CHR 0xAF],
      [CHR 0xE2, CHR 0x81, CHR 0x9F], [CHR 0xE3, CHR 0x80, CHR 0x80] ]"

definition rune_width :: "string list \<Rightarrow> string \<Rightarrow> nat" where
  "rune_width runes s =
     (case find (\<lambda>e. prefix e s) runes of None \<Rightarrow> 0 | Some e \<Rightarrow> length e)"

function trim_runes :: "string list \<Rightarrow> string \<Rightarrow> string" where
  "trim_runes runes s =
     (if rune_width runes s = 0 then s
      else trim_runes runes (drop (rune_width runes s) s))"
  by pat_completeness auto
termination
proof (relation "measure (\<lambda>(runes, s). length s)")
  show "wf (measure (\<lambda>(runes, s). length s))" by simp
next
  fix runes :: "string list" and s :: string
  assume "rune_width runes s \<noteq> 0"
  moreover have "rune_width runes s \<le> length s"
    by (auto simp: rune_width_def find_Some_iff prefix_def split: option.splits)
  ultimately show
    "((runes, drop (rune_width runes s) s), (runes, s)) \<in> measure (\<lambda>(runes, s). length s)"
    by auto
qed

declare trim_runes.simps [simp del]

definition TrimSpace :: "string \<Rightarrow> string" where
  "TrimSpace s = rev (trim_runes (map rev space_runes) (rev (trim_runes space_runes s)))"

text \<open>
  \<open>fmt.Sscanf(field, "%d", &exitCode)\<close> on a field that \<open>TrimSpace\<close> has already
  stripped: an optional sign, then the longest run of the decimal digits \<open>0\<close> to \<open>9\<close>
  (the verb \<open>%d\<close> takes no underscore; only \<open>%v\<close> does). The scan fails, and leaves
  \<open>exitCode\<close> as it was, when the run is empty or when the number does not fit the
  64-bit \<open>int\<close>. Whatever follows the run, an underscore included, is ignored.
  \<open>None\<close> is the failed scan.
\<close>

definition is_digit :: "char \<Rightarrow> bool" where
  "is_digit c = (c \<in> set ''0123456789'')"

definition digit_val :: "char \<Rightarrow> nat" where
  "digit_val c = of_char c - 48"

definition decimal_value :: "string \<Rightarrow> nat" where
  "decimal_value tok = foldl (\<lambda>n c. 10 * n + digit_val c) 0 tok"

definition Sscanf_d :: "string \<Rightarrow> int option" where
  "Sscanf_d s =
     (let (sgn, body) =
            (case s of
               [] \<Rightarrow> ([], [])
             | c # cs \<Rightarrow> if c = CHR ''+'' \<or> c = CHR ''-'' then ([c], cs) else ([], s));
          tok = takeWhile is_digit body
      in if tok = [] then None
         else (let n = (if sgn = ''-'' then - int (decimal_value tok)
                        else int (decimal_value tok))
               in if - (2 ^ 63) \<le> n \<and> n < 2 ^ 63 then Some n else None))"

section \<open>The primary output stream\<close>

text \<open>
  A \<open>bufio.Reader\<close> over the session's stdout pipe, as a test double: \<open>pending\<close> are the
  bytes the remote side will still deliver, \<open>failure\<close> says how the stream ends once they
  are used up (\<open>None\<close> is \<open>io.EOF\<close>, \<open>Some c\<close> another read error).
  \<open>ReadString\<close> returns the data up to and including the first delimiter; when there is
  none it returns what is left together with the error.
\<close>

type_synonym cause = string

datatype read_error = EOF | ReadFailed cause

record Reader =
  pending :: string
  failure :: "cause option"

definition ReadString :: "Reader \<Rightarrow> char \<Rightarrow> (string \<times> read_error option) \<times> Reader" where
  "ReadString r delim =
     (if delim \<in> set (pending r)
      then ((takeWhile (\<lambda>c. c \<noteq> delim) (pending r) @ [delim], None),
            r\<lparr>pending := tl (dropWhile (\<lambda>c. c \<noteq> delim) (pending r))\<rparr>)
      else ((pending r,
             Some (case failure r of None \<Rightarrow> EOF | Some c \<Rightarrow> ReadFailed c)),
            r\<lparr>pending := []\<rparr>))"

text \<open>
  \<open>ShellExecutor.readUntilDelimiter\<close> (executor.go, lines 195 to 220). The loop is
  \<open>readLoop\<close>, with the two variables of the source, \<open>output\<close> and \<open>exitCode\<close>, as
  arguments. The result is Go's triple (output, exit code, error) and the reader as the
  reads left it.
\<close>

function readLoop ::
  "Reader \<Rightarrow> string \<Rightarrow> string \<Rightarrow> int \<Rightarrow> (string \<times> int \<times> read_error option) \<times> Reader" where
  "readLoop reader delimiter output exitCode =
     (case ReadString reader (CHR 0x0A) of
        ((line, Some err), reader') \<Rightarrow>
          if err = EOF then ((output, exitCode, None), reader')
          else (([], 0, Some err), reader')
      | ((line, None), reader') \<Rightarrow>
          if Contains line delimiter
          then (let parts = Split line (CHR '':'');
                    exitCode' =
                      (if length parts = 2
                       then (case Sscanf_d (TrimSpace (parts ! 1)) of
                               None \<Rightarrow> exitCode
                             | Some n \<Rightarrow> n)
                       else exitCode)
                in ((output, exitCode', None), reader'))
          else readLoop reader' delimiter (output @ line) exitCode)"
  by pat_completeness auto
termination
proof -
  have shorter: "length (pending r') < length (pending r)"
    if rd: "ReadString r delim = ((ln, None), r')" for r r' delim ln
  proof -
    from rd have mem: "delim \<in> set (pending r)"
      by (auto simp: ReadString_def split: if_splits)
    then have ne: "dropWhile (\<lambda>c. c \<noteq> delim) (pending r) \<noteq> []"
      by (simp add: dropWhile_eq_Nil_conv)
    from rd mem have "pending r' = tl (dropWhile (\<lambda>c. c \<noteq> delim) (pending r))"
      by (auto simp: ReadString_def)
    then have "length (pending r') < length (dropWhile (\<lambda>c. c \<noteq> delim) (pending r))"
      using ne by simp
    also have "\<dots> \<le> length (pending r)"
      by (rule length_dropWhile_le)
    finally show ?thesis .
  qed
  show ?thesis
    by (relation "measure (\<lambda>(reader, delimiter, out, exitCode). length (pending reader))")
       (auto dest: shorter [OF sym])
qed

declare readLoop.simps [simp del]

definition readUntilDelimiter ::
  "Reader \<Rightarrow> string \<Rightarrow> (string \<times> int \<times> read_error option) \<times> Reader" where
  "readUntilDelimiter reader delimiter = readLoop reader delimiter [] 0"

section \<open>Errors\<close>

text \<open>
  The program reports every failure as an \<open>fmt.Errorf\<close> message. Each message is a
  constructor here, named after the category the specification gives it; the arguments are
  the values the message prints.
\<close>

datatype error =
    NoAllowedHosts                  \<comment> \<open>ConfigError: "no allowed hosts specified"\<close>
  | InvalidHostPattern string cause \<comment> \<open>ConfigError: "invalid host pattern '%s': %w"\<close>
  | NoValidHostPatterns             \<comment> \<open>ConfigError: "no valid host patterns provided"\<close>
  | HostEmpty                       \<comment> \<open>HostDenied: "host cannot be empty"\<close>
  | HostNotAllowed string           \<comment> \<open>HostDenied: "host '%s' is not in the allowed hosts list"\<close>
  | CapacityExceeded nat nat        \<comment> \<open>"connection limit reached (%d/%d)"\<close>
  | DuplicateID string              \<comment> \<open>"connection with ID '%s' already exists"\<close>
  | KeyFileUnreadable string cause  \<comment> \<open>"failed to read private key file '%s': %w"\<close>
  | KeyUnparsable cause             \<comment> \<open>"failed to parse private key: %w"\<close>
  | NoAuthMethod                    \<comment> \<open>"no authentication method provided (...)"\<close>
  | DialError string cause          \<comment> \<open>"failed to connect to %s: %w"\<close>
  | ExecutorError error             \<comment> \<open>"failed to create shell executor: %w"\<close>
  | NotFound string                 \<comment> \<open>"connection '%s' not found"\<close>
  | SessionFailed cause             \<comment> \<open>"failed to create session: %w"\<close>
  | StdinPipeFailed cause           \<comment> \<open>"failed to get stdin pipe: %w"\<close>
  | StdoutPipeFailed cause          \<comment> \<open>"failed to get stdout pipe: %w"\<close>
  | StderrPipeFailed cause          \<comment> \<open>"failed to get stderr pipe: %w"\<close>
  | ShellFailed cause               \<comment> \<open>"failed to start shell: %w"\<close>
  | InitWriteFailed cause           \<comment> \<open>"failed to initialize shell: %w"\<close>
  | InvalidCommand                  \<comment> \<open>"command contains forbidden delimiter pattern ..."\<close>
  | WriteFailed cause               \<comment> \<open>"failed to write command: %w"\<close>
  | StreamError read_error          \<comment> \<open>"read error: %w" from the primary stream\<close>
  | StderrError cause               \<comment> \<open>"read error: %w" from the secondary stream\<close>
  | CommandTimeout                  \<comment> \<open>"command execution timed out"\<close>
  | IDEmpty                         \<comment> \<open>"connection_id cannot be empty"\<close>
  | IDTooLong                       \<comment> \<open>"connection_id too long (max 128 characters)"\<close>
  | IDInvalidChars                  \<comment> \<open>"connection_id contains invalid characters ..."\<close>
  | PortOutOfRange int              \<comment> \<open>"port must be between 1 and 65535, got %d"\<close>
  | AuthMissing                     \<comment> \<open>"either 'password' or 'private_key_path' must be provided"\<close>
  | MissingParameter string         \<comment> \<open>\<open>RequireString\<close> found no such string argument\<close>
  | UsernameEmpty                   \<comment> \<open>"username cannot be empty"\<close>
  | CommandEmpty                    \<comment> \<open>"command cannot be empty"\<close>
  | CommandTooLong                  \<comment> \<open>"command too long (max 1MB)"\<close>
  | ConnectFailed error             \<comment> \<open>"Failed to connect: %v"\<close>
  | NilExecutor                     \<comment> \<open>a nil pointer dereference (a panic in Go)\<close>

section \<open>The secure channel provider and the other collaborators\<close>

text \<open>
  Handles of the SSH library are numbers. A \<open>Writer\<close> is the session's stdin pipe as a
  test double: it records every write, and \<open>broken\<close> makes each write fail.
\<close>

type_synonym client = nat
type_synonym session = nat
type_synonym signer = string

record Writer =
  written :: "string list"
  broken :: "cause option"

definition Write :: "Writer \<Rightarrow> string \<Rightarrow> cause option \<times> Writer" where
  "Write w data =
     (case broken w of
        Some c \<Rightarrow> (Some c, w)
      | None \<Rightarrow> (None, w\<lparr>written := written w @ [data]\<rparr>))"

datatype AuthMethod = Password string | PublicKeys signer

record ClientConfig =
  User :: string
  Auth :: "AuthMethod list"

text \<open>
  Everything outside the repository that \<open>Connect\<close>, \<open>Close\<close> and
  \<open>NewShellExecutor\<close> call: the file system, the SSH library and the clock. Each field is
  the outcome of the call of that name; \<open>Inl\<close> and \<open>Some\<close> carry the library's error.
\<close>

record world =
  ReadFile :: "string \<Rightarrow> cause + string"
  ParsePrivateKey :: "string \<Rightarrow> cause + signer"
  Dial :: "string \<Rightarrow> ClientConfig \<Rightarrow> cause + client"
  ClientClose :: "client \<Rightarrow> cause option"
  NewSession :: "client \<Rightarrow> cause + session"
  StdinPipe :: "session \<Rightarrow> cause + Writer"
  StdoutPipe :: "session \<Rightarrow> cause + Reader"
  StderrPipe :: "session \<Rightarrow> cause + Reader"
  Shell :: "session \<Rightarrow> cause option"
  SessionClose :: "session \<Rightarrow> cause option"
  StdinClose :: "session \<Rightarrow> cause option"
  Now :: int

text \<open>The calls that change the world outside, in the order the program makes them.\<close>

datatype effect =
    FileRead string
  | Dialed string ClientConfig
  | ClientClosed client "cause option"
  | SessionOpened client session
  | ShellStarted session
  | Slept nat
  | Drained session
  | StdinClosed session "cause option"
  | SessionClosed session "cause option"

section \<open>The session: executor.go\<close>

definition shellInitialDrainDelay :: nat where
  "shellInitialDrainDelay = 200"

definition shellInitCommandDelay :: nat where
  "shellInitCommandDelay = 100"

definition maxCommandSize :: nat where
  "maxCommandSize = 1 * 1024 * 1024"

definition maxOutputSize :: nat where
  "maxOutputSize = 10 * 1024 * 1024"

record CommandResult =
  Stdout :: string
  Stderr :: string
  ExitCode :: int

record ShellExecutor =
  session :: session
  stdin :: Writer
  stdout :: Reader
  stderr :: Reader

definition initCommands :: string where
  "initCommands = ''stty -echo 2>/dev/null; export PS1='' @ [CHR 0x27, CHR 0x27, CHR 0x0A]"

text \<open>
  \<open>NewShellExecutor\<close> (executor.go, lines 48 to 104). Go returns a pair (executor, error);
  the model returns the same pair, each half an option (\<open>None\<close> is Go's \<open>nil\<close>), and the
  effects on the world. \<open>drainOutput\<close> reads only while \<open>Buffered() > 0\<close>, that is what
  the \<open>bufio.Reader\<close> already holds; it is recorded as the effect \<open>Drained\<close> and leaves
  the readers of the model, which stand for the bytes still to come, as they are.
\<close>

definition NewShellExecutor ::
  "world \<Rightarrow> client \<Rightarrow> (ShellExecutor option \<times> error option) \<times> effect list" where
  "NewShellExecutor w c =
     (case NewSession w c of
        Inl err \<Rightarrow> ((None, Some (SessionFailed err)), [])
      | Inr s \<Rightarrow>
     (case StdinPipe w s of
        Inl err \<Rightarrow>
          ((None, Some (StdinPipeFailed err)),
           [SessionOpened c s, SessionClosed s (SessionClose w s)])
      | Inr stdin_pipe \<Rightarrow>
     (case StdoutPipe w s of
        Inl err \<Rightarrow>
          ((None, Some (StdoutPipeFailed err)),
           [SessionOpened c s, SessionClosed s (SessionClose w s)])
      | Inr stdoutPipe \<Rightarrow>
     (case StderrPipe w s of
        Inl err \<Rightarrow>
          ((None, Some (StderrPipeFailed err)),
           [SessionOpened c s, SessionClosed s (SessionClose w s)])
      | Inr stderrPipe \<Rightarrow>
     (case Shell w s of
        Some err \<Rightarrow>
          ((None, Some (ShellFailed err)),
           [SessionOpened c s, SessionClosed s (SessionClose w s)])
      | None \<Rightarrow>
     (case Write stdin_pipe initCommands of
        (Some err, stdin') \<Rightarrow>
          ((None, Some (InitWriteFailed err)),
           [SessionOpened c s, ShellStarted s, Slept shellInitialDrainDelay, Drained s,
            SessionClosed s (SessionClose w s)])
      | (None, stdin') \<Rightarrow>
          ((Some \<lparr>session = s, stdin = stdin', stdout = stdoutPipe, stderr = stderrPipe\<rparr>,
            None),
           [SessionOpened c s, ShellStarted s, Slept shellInitialDrainDelay, Drained s,
            Slept shellInitCommandDelay, Drained s])))))))"

text \<open>
  \<open>fmt.Sprintf("%d", n)\<close>: the decimal digits of an integer, with a minus sign when it is
  negative.
\<close>

fun digits_of :: "nat \<Rightarrow> string" where
  "digits_of n =
     (if n < 10 then [char_of (48 + n)]
      else digits_of (n div 10) @ [char_of (48 + n mod 10)])"

declare digits_of.simps [simp del]

definition Sprintf_d :: "int \<Rightarrow> string" where
  "Sprintf_d i = (if i < 0 then CHR ''-'' # digits_of (nat (- i)) else digits_of (nat i))"

definition delimiter_prefix :: string where
  "delimiter_prefix = ''__MCP_SSH_END_''"

text \<open>
  What one call of \<open>Execute\<close> meets outside the executor: the clock
  (\<open>time.Now().UnixNano()\<close>), what \<open>readStderr\<close> returns (it polls the secondary stream
  against a wall-clock deadline), and whether the 30 second timer fires before both
  readers have reported.
\<close>

record run_env =
  UnixNano :: int
  stderr_read :: "cause + string"
  timed_out :: bool

text \<open>
  \<open>ShellExecutor.Execute\<close> (executor.go, lines 107 to 192). The two reader goroutines
  and the \<open>select\<close> that joins them are taken at their outcome: the timeout, a read error
  of either stream, or both outputs.
\<close>

definition Execute ::
  "ShellExecutor \<Rightarrow> run_env \<Rightarrow> string \<Rightarrow> (CommandResult option \<times> error option) \<times> ShellExecutor" where
  "Execute e env command =
     (let delimiter = delimiter_prefix @ Sprintf_d (UnixNano env) @ ''__'' in
      if Contains command delimiter_prefix then ((None, Some InvalidCommand), e)
      else
        (let fullCommand =
               command @ [CHR 0x0A] @ ''echo '' @ [CHR 0x22] @ delimiter @ '':$?''
                 @ [CHR 0x22, CHR 0x0A]
         in case Write (stdin e) fullCommand of
              (Some err, stdin') \<Rightarrow> ((None, Some (WriteFailed err)), e\<lparr>stdin := stdin'\<rparr>)
            | (None, stdin') \<Rightarrow>
                (case readUntilDelimiter (stdout e) delimiter of
                   ((output, code, rerr), stdout') \<Rightarrow>
                     (let e' = e\<lparr>stdin := stdin', stdout := stdout'\<rparr> in
                      if timed_out env then ((None, Some CommandTimeout), e')
                      else
                        (case rerr of
                           Some err \<Rightarrow> ((None, Some (StreamError err)), e')
                         | None \<Rightarrow>
                             (case stderr_read env of
                                Inl err \<Rightarrow> ((None, Some (StderrError err)), e')
                              | Inr errout \<Rightarrow>
                                  ((Some \<lparr>Stdout = TrimSpace output,
                                          Stderr = TrimSpace errout,
                                          ExitCode = code\<rparr>,
                                    None), e')))))))"

text \<open>
  \<open>ShellExecutor.Close\<close> (executor.go, lines 258 to 271): the input side first, its
  error dropped, then the session, whose error is the result.
\<close>

definition Executor_Close :: "world \<Rightarrow> ShellExecutor \<Rightarrow> cause option \<times> effect list" where
  "Executor_Close w e =
     (SessionClose w (session e),
      [StdinClosed (session e) (StdinClose w (session e)),
       SessionClosed (session e) (SessionClose w (session e))])"

section \<open>The host allowlist: NewHostValidator and Validate in manager.go\<close>

text \<open>
  A compiled pattern of \<open>github.com/gobwas/glob\<close> is a value of the interface
  \<open>glob.Glob\<close>, whose one method is \<open>Match(string) bool\<close>: the model takes a compiled
  pattern to be that function. \<open>glob.Compile\<close> belongs to the library and is a parameter.
\<close>

type_synonym glob = "string \<Rightarrow> bool"

record HostValidator =
  patterns :: "glob list"

text \<open>The \<open>for\<close> loop of \<open>NewHostValidator\<close>, with the slice \<open>patterns\<close> as argument.\<close>

fun compile_hosts ::
  "(string \<Rightarrow> cause + glob) \<Rightarrow> string list \<Rightarrow> glob list \<Rightarrow> error + glob list" where
  "compile_hosts Compile [] pats = Inr pats"
| "compile_hosts Compile (host # hosts) pats =
     (let host' = TrimSpace host in
      if host' = [] then compile_hosts Compile hosts pats
      else (case Compile host' of
              Inl err \<Rightarrow> Inl (InvalidHostPattern host' err)
            | Inr pattern \<Rightarrow> compile_hosts Compile hosts (pats @ [pattern])))"

definition NewHostValidator ::
  "(string \<Rightarrow> cause + glob) \<Rightarrow> string \<Rightarrow> error + HostValidator" where
  "NewHostValidator Compile allowedHosts =
     (if allowedHosts = [] then Inl NoAllowedHosts
      else (case compile_hosts Compile (Split allowedHosts (CHR '','')) [] of
              Inl err \<Rightarrow> Inl err
            | Inr pats \<Rightarrow>
                if length pats = 0 then Inl NoValidHostPatterns
                else Inr \<lparr>patterns = pats\<rparr>))"

definition Validate :: "HostValidator \<Rightarrow> string \<Rightarrow> error option" where
  "Validate v host =
     (if host = [] then Some HostEmpty
      else if list_ex (\<lambda>pattern. pattern host) (patterns v) then None
      else Some (HostNotAllowed host))"

section \<open>The session pool: manager.go\<close>

definition MaxConnections :: nat where
  "MaxConnections = 100"

record ConnectionInfo =
  ID :: string
  Host :: string
  Port :: int
  Username :: string
  Created :: int

text \<open>The two pointers of a \<open>Connection\<close> are options: \<open>None\<close> is \<open>nil\<close>.\<close>

record Connection =
  Info :: ConnectionInfo
  client :: "client option"
  executor :: "ShellExecutor option"

text \<open>
  The registry is Go's \<open>map[string]*Connection\<close>: a finite map, whose \<open>len\<close> is the
  number of its keys.
\<close>

record Manager =
  connections :: "(string, Connection) fmap"
  validator :: HostValidator

definition NewManager :: "HostValidator \<Rightarrow> Manager" where
  "NewManager v = \<lparr>connections = fmempty, validator = v\<rparr>"

definition len :: "(string, Connection) fmap \<Rightarrow> nat" where
  "len cs = fcard (fmdom cs)"

text \<open>\<open>net.JoinHostPort\<close>: the host in brackets when it holds a colon.\<close>

definition JoinHostPort :: "string \<Rightarrow> string \<Rightarrow> string" where
  "JoinHostPort host port =
     (if CHR '':'' \<in> set host
      then ''['' @ host @ '']:'' @ port
      else host @ '':'' @ port)"

text \<open>
  \<open>Manager.Connect\<close> (manager.go, lines 53 to 135), in the order of the source: the
  connection limit, the id, the host, the authentication methods, the dial, the shell
  executor, the registration. The result is the error (\<open>None\<close> is \<open>nil\<close>), the manager
  after the call and the effects on the world.
\<close>

definition Connect ::
  "world \<Rightarrow> Manager \<Rightarrow> string \<Rightarrow> string \<Rightarrow> int \<Rightarrow> string \<Rightarrow> string \<Rightarrow> string
     \<Rightarrow> (error option \<times> Manager) \<times> effect list" where
  "Connect w m cid host port username password privateKeyPath =
     (if len (connections m) \<ge> MaxConnections
      then ((Some (CapacityExceeded (len (connections m)) MaxConnections), m), [])
      else if cid |\<in>| fmdom (connections m) then ((Some (DuplicateID cid), m), [])
      else
     (case Validate (validator m) host of
        Some err \<Rightarrow> ((Some err, m), [])
      | None \<Rightarrow>
     (let auth0 = (if password \<noteq> [] then [Password password] else []);
          keyfx = (if privateKeyPath \<noteq> [] then [FileRead privateKeyPath] else [])
      in
     (case (if privateKeyPath \<noteq> []
            then (case ReadFile w privateKeyPath of
                    Inl err \<Rightarrow> Inl (KeyFileUnreadable privateKeyPath err)
                  | Inr keyData \<Rightarrow>
                      (case ParsePrivateKey w keyData of
                         Inl err \<Rightarrow> Inl (KeyUnparsable err)
                       | Inr sg \<Rightarrow> Inr (auth0 @ [PublicKeys sg])))
            else Inr auth0) of
        Inl err \<Rightarrow> ((Some err, m), keyfx)
      | Inr auth \<Rightarrow>
          if length auth = 0 then ((Some NoAuthMethod, m), keyfx)
          else
     (let addr = JoinHostPort host (Sprintf_d port);
          config = \<lparr>User = username, Auth = auth\<rparr>
      in
     (case Dial w addr config of
        Inl err \<Rightarrow> ((Some (DialError addr err), m), keyfx @ [Dialed addr config])
      | Inr c \<Rightarrow>
     (case NewShellExecutor w c of
        ((ex, Some err), fx) \<Rightarrow>
          ((Some (ExecutorError err), m),
           keyfx @ [Dialed addr config] @ fx @ [ClientClosed c (ClientClose w c)])
      | ((ex, None), fx) \<Rightarrow>
          ((None,
            m\<lparr>connections :=
                fmupd cid
                  \<lparr>Info = \<lparr>ID = cid, Host = host, Port = port, Username = username,
                            Created = Now w\<rparr>,
                   client = Some c, executor = ex\<rparr>
                  (connections m)\<rparr>),
           keyfx @ [Dialed addr config] @ fx))))))))"

text \<open>
  \<open>Manager.Execute\<close> (manager.go, lines 138 to 148). The executor is reached through a
  pointer, so what the call does to it is seen in the registry afterwards.
\<close>

definition Manager_Execute ::
  "Manager \<Rightarrow> run_env \<Rightarrow> string \<Rightarrow> string
     \<Rightarrow> (CommandResult option \<times> error option) \<times> Manager" where
  "Manager_Execute m env cid command =
     (case fmlookup (connections m) cid of
        None \<Rightarrow> ((None, Some (NotFound cid)), m)
      | Some conn \<Rightarrow>
          (case executor conn of
             None \<Rightarrow> ((None, Some NilExecutor), m)
           | Some e \<Rightarrow>
               (case Execute e env command of
                  (res, e') \<Rightarrow>
                    (res,
                     m\<lparr>connections :=
                         fmupd cid (conn\<lparr>executor := Some e'\<rparr>) (connections m)\<rparr>))))"

text \<open>
  The teardown of one connection, as \<open>Close\<close> and \<open>CloseAll\<close> both do it: the
  executor, then the client, each only when the pointer is not \<open>nil\<close>, each error dropped.
\<close>

definition teardown :: "world \<Rightarrow> Connection \<Rightarrow> effect list" where
  "teardown w conn =
     (case executor conn of None \<Rightarrow> [] | Some e \<Rightarrow> snd (Executor_Close w e))
     @ (case client conn of None \<Rightarrow> [] | Some c \<Rightarrow> [ClientClosed c (ClientClose w c)])"

text \<open>\<open>Manager.Close\<close> (manager.go, lines 151 to 172).\<close>

definition Manager_Close ::
  "world \<Rightarrow> Manager \<Rightarrow> string \<Rightarrow> (error option \<times> Manager) \<times> effect list" where
  "Manager_Close w m cid =
     (case fmlookup (connections m) cid of
        None \<Rightarrow> ((Some (NotFound cid), m), [])
      | Some conn \<Rightarrow>
          ((None, m\<lparr>connections := fmdrop cid (connections m)\<rparr>), teardown w conn))"

text \<open>
  \<open>Manager.List\<close> and \<open>Manager.CloseAll\<close>. Go iterates a map in no fixed order, so
  the records and the teardowns come as finite sets, one element per connection.
\<close>

definition List :: "Manager \<Rightarrow> ConnectionInfo fset" where
  "List m = Info |`| fmran (connections m)"

definition CloseAll :: "world \<Rightarrow> Manager \<Rightarrow> Manager \<times> effect list fset" where
  "CloseAll w m = (m\<lparr>connections := fmempty\<rparr>, teardown w |`| fmran (connections m))"

text \<open>
  The pool states the program can be in: the one \<open>NewManager\<close> builds, and every state an
  operation of the manager leaves behind, whatever the arguments and the world.
\<close>

inductive reachable :: "Manager \<Rightarrow> bool" where
  reachable_new: "reachable (NewManager v)"
| reachable_connect:
    "reachable m \<Longrightarrow>
     snd (fst (Connect w m cid host port username password privateKeyPath)) = m' \<Longrightarrow>
     reachable m'"
| reachable_execute:
    "reachable m \<Longrightarrow> snd (Manager_Execute m env cid command) = m' \<Longrightarrow> reachable m'"
| reachable_close:
    "reachable m \<Longrightarrow> snd (fst (Manager_Close w m cid)) = m' \<Longrightarrow> reachable m'"
| reachable_closeAll:
    "reachable m \<Longrightarrow> fst (CloseAll w m) = m' \<Longrightarrow> reachable m'"

section \<open>The request adapter: handlers.go\<close>

definition valid_id_char :: "char \<Rightarrow> bool" where
  "valid_id_char r =
     ((CHR ''a'' \<le> r \<and> r \<le> CHR ''z'') \<or> (CHR ''A'' \<le> r \<and> r \<le> CHR ''Z'')
      \<or> (CHR ''0'' \<le> r \<and> r \<le> CHR ''9'') \<or> r = CHR ''-'' \<or> r = CHR ''_'')"

definition validateConnectionID :: "string \<Rightarrow> error option" where
  "validateConnectionID cid =
     (if cid = [] then Some IDEmpty
      else if length cid > 128 then Some IDTooLong
      else if list_ex (\<lambda>r. \<not> valid_id_char r) cid then Some IDInvalidChars
      else None)"

definition validatePort :: "int \<Rightarrow> error option" where
  "validatePort port = (if port < 1 \<or> port > 65535 then Some (PortOutOfRange port) else None)"

definition validateCommand :: "string \<Rightarrow> error option" where
  "validateCommand cmd =
     (if cmd = [] then Some CommandEmpty
      else if length cmd > 1048576 then Some CommandTooLong
      else None)"

definition validateAuthMethod :: "string \<Rightarrow> string \<Rightarrow> error option" where
  "validateAuthMethod password privateKeyPath =
     (if password = [] \<and> privateKeyPath = [] then Some AuthMissing else None)"

text \<open>\<open>req.GetString(key, default)\<close>: the argument when the request has it, else the default.\<close>

definition GetString :: "string option \<Rightarrow> string \<Rightarrow> string" where
  "GetString arg dflt = (case arg of None \<Rightarrow> dflt | Some v \<Rightarrow> v)"

text \<open>
  \<open>Handlers.HandleConnect\<close> (handlers.go, lines 80 to 157). The arguments of the request
  are options: \<open>None\<close> is an argument the request does not carry (or carries with
  another type). \<open>port\<close> is the number after Go's conversion to \<open>int\<close>. The result is
  the error of the tool result (\<open>None\<close> is the success response), the manager after the
  call and the effects.
\<close>

definition HandleConnect ::
  "world \<Rightarrow> Manager \<Rightarrow> string option \<Rightarrow> string option \<Rightarrow> string option \<Rightarrow> int option
     \<Rightarrow> string option \<Rightarrow> string option \<Rightarrow> (error option \<times> Manager) \<times> effect list" where
  "HandleConnect w m connection_id host_arg username_arg port_arg password_arg key_arg =
     (case connection_id of
        None \<Rightarrow> ((Some (MissingParameter ''connection_id''), m), [])
      | Some connectionID \<Rightarrow>
     (case validateConnectionID connectionID of
        Some err \<Rightarrow> ((Some err, m), [])
      | None \<Rightarrow>
     (case host_arg of
        None \<Rightarrow> ((Some (MissingParameter ''host''), m), [])
      | Some host \<Rightarrow>
          if TrimSpace host = [] then ((Some HostEmpty, m), [])
          else
     (case username_arg of
        None \<Rightarrow> ((Some (MissingParameter ''username''), m), [])
      | Some username \<Rightarrow>
          if TrimSpace username = [] then ((Some UsernameEmpty, m), [])
          else
     (let port = (case port_arg of None \<Rightarrow> 22 | Some p \<Rightarrow> p) in
     (case validatePort port of
        Some err \<Rightarrow> ((Some err, m), [])
      | None \<Rightarrow>
     (let password = GetString password_arg [];
          privateKeyPath = GetString key_arg []
      in
     (case validateAuthMethod password privateKeyPath of
        Some err \<Rightarrow> ((Some err, m), [])
      | None \<Rightarrow>
     (case Connect w m connectionID host port username password privateKeyPath of
        ((Some err, m'), fx) \<Rightarrow> ((Some (ConnectFailed err), m'), fx)
      | ((None, m'), fx) \<Rightarrow> ((None, m'), fx))))))))))"

section \<open>Vocabulary of the properties\<close>

text \<open>
  A line of the stream, as \<open>ReadString\<close> cuts it: bytes without a newline, then one
  newline.
\<close>

definition is_line :: "string \<Rightarrow> bool" where
  "is_line l = (l \<noteq> [] \<and> last l = CHR 0x0A \<and> CHR 0x0A \<notin> set (butlast l))"

text \<open>
  The specification's reading of the token line: split it on \<open>:\<close> and parse the trailing
  field as an integer. The parse fails when the line does not split into exactly two
  fields or when the trailing field is not scanned as an integer.
\<close>

definition spec_parse_exit :: "string \<Rightarrow> int option" where
  "spec_parse_exit line =
     (let fields = Split line (CHR '':'') in
      if length fields = 2 then Sscanf_d (TrimSpace (last fields)) else None)"

text \<open>
  The segments of an allowlist specification that survive the splitting on commas and the
  trimming of white space.
\<close>

definition surviving_segments :: "string \<Rightarrow> string list" where
  "surviving_segments spec =
     filter (\<lambda>seg. seg \<noteq> []) (map TrimSpace (Split spec (CHR '','')))"

section \<open>Concrete worlds and pools\<close>

text \<open>
  Inputs for the examples. In \<open>friendly_world\<close> every call outside the repository
  succeeds; in \<open>broken_world\<close> every teardown call fails. \<open>local_validator\<close> allows the
  one host \<open>localhost\<close>. \<open>pool_of n\<close> is the pool after \<open>n\<close> calls of \<open>Connect\<close> in the
  friendly world, with the ids \<open>a\<close>, \<open>aa\<close>, \<open>aaa\<close> and so on; \<open>pool_connection i\<close> is the
  entry the call number \<open>i\<close> registers.
\<close>

definition friendly_world :: world where
  "friendly_world =
     \<lparr>ReadFile = (\<lambda>path. Inr ''key material''),
      ParsePrivateKey = (\<lambda>keyData. Inr keyData),
      Dial = (\<lambda>addr config. Inr 7),
      ClientClose = (\<lambda>c. None),
      NewSession = (\<lambda>c. Inr 1),
      StdinPipe = (\<lambda>s. Inr \<lparr>written = [], broken = None\<rparr>),
      StdoutPipe = (\<lambda>s. Inr \<lparr>pending = [], failure = None\<rparr>),
      StderrPipe = (\<lambda>s. Inr \<lparr>pending = [], failure = None\<rparr>),
      Shell = (\<lambda>s. None),
      SessionClose = (\<lambda>s. None),
      StdinClose = (\<lambda>s. None),
      Now = 0\<rparr>"

definition broken_world :: world where
  "broken_world =
     friendly_world
       \<lparr>ClientClose := (\<lambda>c. Some ''use of closed network connection''),
        SessionClose := (\<lambda>s. Some ''EOF''),
        StdinClose := (\<lambda>s. Some ''EOF'')\<rparr>"

definition local_validator :: HostValidator where
  "local_validator = \<lparr>patterns = [\<lambda>host. host = ''localhost'']\<rparr>"

definition pool_id :: "nat \<Rightarrow> string" where
  "pool_id i = replicate (Suc i) (CHR ''a'')"

fun pool_of :: "nat \<Rightarrow> Manager" where
  "pool_of 0 = NewManager local_validator"
| "pool_of (Suc n) =
     snd (fst (Connect friendly_world (pool_of n) (pool_id n) ''localhost'' 22 ''root'' ''pw'' []))"

declare pool_of.simps [simp del]

definition pool_connection :: "nat \<Rightarrow> Connection" where
  "pool_connection i =
     \<lparr>Info = \<lparr>ID = pool_id i, Host = ''localhost'', Port = 22, Username = ''root'',
              Created = 0\<rparr>,
      client = Some 7,
      executor =
        Some \<lparr>session = 1, stdin = \<lparr>written = [initCommands], broken = None\<rparr>,
              stdout = \<lparr>pending = [], failure = None\<rparr>,
              stderr = \<lparr>pending = [], failure = None\<rparr>\<rparr>\<rparr>"

section \<open>Reading the primary stream\<close>

text \<open>
  The scan on some fields: digits followed by anything else scan as the digits, so a field
  \<open>1_0\<close> gives 1; a field with no leading digits fails.
\<close>

lemma Sscanf_d_examples:
  "Sscanf_d ''0'' = Some 0"
  "Sscanf_d ''127'' = Some 127"
  "Sscanf_d ''-3'' = Some (- 3)"
  "Sscanf_d ''+7'' = Some 7"
  "Sscanf_d ''1_0'' = Some 1"
  "Sscanf_d ''5_'' = Some 5"
  "Sscanf_d ''12abc'' = Some 12"
  "Sscanf_d ''_1'' = None"
  "Sscanf_d ''abc'' = None"
  "Sscanf_d ''-'' = None"
  "Sscanf_d [] = None"
  by code_simp+

lemma JoinHostPort_examples:
  "JoinHostPort ''localhost'' ''22'' = ''localhost:22''"
  "JoinHostPort ''fe80%eth0'' ''22'' = ''fe80%eth0:22''"
  "JoinHostPort ''::1'' ''22'' = ''[::1]:22''"
  by code_simp+

lemma ReadString_line:
  assumes "is_line l" and "pending r = l @ rest"
  shows "ReadString r (CHR 0x0A) = ((l, None), r\<lparr>pending := rest\<rparr>)"
proof -
  from assms(1) obtain b where l: "l = b @ [CHR 0x0A]" and b: "CHR 0x0A \<notin> set b"
    unfolding is_line_def by (metis append_butlast_last_id)
  have tw: "takeWhile (\<lambda>c. c \<noteq> CHR 0x0A) (b @ CHR 0x0A # rest) = b"
    using b by (induction b) auto
  have dw: "dropWhile (\<lambda>c. c \<noteq> CHR 0x0A) (b @ CHR 0x0A # rest) = CHR 0x0A # rest"
    using b by (induction b) auto
  show ?thesis
    using assms(2) l tw dw by (simp add: ReadString_def)
qed

lemma ReadString_end:
  assumes "CHR 0x0A \<notin> set (pending r)"
  shows "ReadString r (CHR 0x0A) =
           ((pending r, Some (case failure r of None \<Rightarrow> EOF | Some c \<Rightarrow> ReadFailed c)),
            r\<lparr>pending := []\<rparr>)"
  using assms by (simp add: ReadString_def)

text \<open>Lines without the token are appended to the output, one after the other.\<close>

lemma readLoop_skip:
  assumes "\<forall>l \<in> set ls. is_line l \<and> \<not> Contains l d"
    and "pending r = concat ls @ rest"
  shows "readLoop r d out ec = readLoop (r\<lparr>pending := rest\<rparr>) d (out @ concat ls) ec"
  using assms
proof (induction ls arbitrary: r out)
  case Nil
  then have "r\<lparr>pending := rest\<rparr> = r" by simp
  then show ?case by simp
next
  case (Cons l ls)
  then have l: "is_line l" "\<not> Contains l d" by simp_all
  from Cons.prems(2) have p: "pending r = l @ (concat ls @ rest)" by simp
  have rd: "ReadString r (CHR 0x0A) = ((l, None), r\<lparr>pending := concat ls @ rest\<rparr>)"
    by (rule ReadString_line [OF l(1) p])
  have "readLoop r d out ec = readLoop (r\<lparr>pending := concat ls @ rest\<rparr>) d (out @ l) ec"
    by (subst readLoop.simps) (simp add: rd l(2))
  also have "\<dots> = readLoop ((r\<lparr>pending := concat ls @ rest\<rparr>)\<lparr>pending := rest\<rparr>) d
                      ((out @ l) @ concat ls) ec"
    by (rule Cons.IH) (use Cons.prems in simp_all)
  finally show ?case by simp
qed

lemma last_of_two: "length xs = 2 \<Longrightarrow> last xs = xs ! 1"
  by (cases xs rule: rev_cases) (auto simp: nth_append)

lemma readLoop_token:
  assumes "is_line line" and "Contains line d" and "pending r = line @ rest"
  shows "readLoop r d out 0 =
           ((out, (case spec_parse_exit line of None \<Rightarrow> 0 | Some n \<Rightarrow> n), None),
            r\<lparr>pending := rest\<rparr>)"
proof -
  have rd: "ReadString r (CHR 0x0A) = ((line, None), r\<lparr>pending := rest\<rparr>)"
    by (rule ReadString_line [OF assms(1) assms(3)])
  show ?thesis
    by (subst readLoop.simps)
       (simp add: rd assms(2) spec_parse_exit_def Let_def last_of_two)
qed

lemma readUntilDelimiter_token:
  assumes "pending r = concat ls @ line @ rest"
    and "\<forall>l \<in> set ls. is_line l \<and> \<not> Contains l d"
    and "is_line line" and "Contains line d"
  shows "readUntilDelimiter r d =
           ((concat ls, (case spec_parse_exit line of None \<Rightarrow> 0 | Some n \<Rightarrow> n), None),
            r\<lparr>pending := rest\<rparr>)"
proof -
  have "readUntilDelimiter r d = readLoop (r\<lparr>pending := line @ rest\<rparr>) d ([] @ concat ls) 0"
    unfolding readUntilDelimiter_def by (rule readLoop_skip [OF assms(2) assms(1)])
  also have "\<dots> =
      (([] @ concat ls, (case spec_parse_exit line of None \<Rightarrow> 0 | Some n \<Rightarrow> n), None),
       (r\<lparr>pending := line @ rest\<rparr>)\<lparr>pending := rest\<rparr>)"
    by (rule readLoop_token [OF assms(3) assms(4)]) simp
  finally show ?thesis by simp
qed

text \<open>A token line whose trailing field is \<open>1_0\<close> gives the exit code 1.\<close>

lemma readUntilDelimiter_underscore:
  "readUntilDelimiter
     \<lparr>pending = ''__MCP_SSH_END_1__:1_0'' @ [CHR 0x0A], failure = None\<rparr>
     ''__MCP_SSH_END_1__''
   = (([], 1, None), \<lparr>pending = [], failure = None\<rparr>)"
  by code_simp


text \<open>
  C5. When the primary stream ends (\<open>io.EOF\<close>) before a line with the token has been
  read, \<open>readUntilDelimiter\<close> returns without error: the output is every complete line
  read so far, the exit code is 0. The stream is any number of complete lines, none with
  the token, and then a last piece \<open>frag\<close> with no newline; that piece was never added to
  the output, so it is not part of the result, whatever it holds.
\<close>

theorem eof_before_token:
  assumes "failure r = None"
    and "pending r = concat ls @ frag"
    and "\<forall>l \<in> set ls. is_line l \<and> \<not> Contains l d"
    and "CHR 0x0A \<notin> set frag"
  shows "readUntilDelimiter r d = ((concat ls, 0, None), r\<lparr>pending := []\<rparr>)"
proof -
  have "readUntilDelimiter r d = readLoop (r\<lparr>pending := frag\<rparr>) d ([] @ concat ls) 0"
    unfolding readUntilDelimiter_def by (rule readLoop_skip [OF assms(3) assms(2)])
  also have "\<dots> = ((concat ls, 0, None), r\<lparr>pending := []\<rparr>)"
    using assms(1,4) by (subst readLoop.simps) (simp add: ReadString_end)
  finally show ?thesis .
qed

theorem eof_before_token_witness:
  "is_line (''hello'' @ [CHR 0x0A])
   \<and> \<not> Contains (''hello'' @ [CHR 0x0A]) ''__MCP_SSH_END_1__''
   \<and> CHR 0x0A \<notin> set ''__MCP_SSH_END_1__:3''
   \<and> readUntilDelimiter
        \<lparr>pending = ''hello'' @ [CHR 0x0A] @ ''__MCP_SSH_END_1__:3'', failure = None\<rparr>
        ''__MCP_SSH_END_1__''
      = ((''hello'' @ [CHR 0x0A], 0, None), \<lparr>pending = [], failure = None\<rparr>)"
proof -
  have l: "is_line (''hello'' @ [CHR 0x0A])"
    "\<not> Contains (''hello'' @ [CHR 0x0A]) ''__MCP_SSH_END_1__''"
    by code_simp+
  have f: "CHR 0x0A \<notin> set ''__MCP_SSH_END_1__:3''"
    by simp
  have e: "failure \<lparr>pending = ''hello'' @ [CHR 0x0A] @ ''__MCP_SSH_END_1__:3'',
                   failure = None\<rparr> = None"
    by simp
  have p: "pending \<lparr>pending = ''hello'' @ [CHR 0x0A] @ ''__MCP_SSH_END_1__:3'',
                   failure = None\<rparr>
           = concat [''hello'' @ [CHR 0x0A] ] @ ''__MCP_SSH_END_1__:3''"
    by simp
  have q: "\<forall>l \<in> set [''hello'' @ [CHR 0x0A] ]. is_line l \<and> \<not> Contains l ''__MCP_SSH_END_1__''"
    using l by simp
  from eof_before_token [OF e p q f] l f show ?thesis
    by simp
qed



section \<open>The injection guard and the initialization of the session\<close>

text \<open>
  C3. A command whose text holds the fixed prefix of the sentinel makes \<open>Execute\<close> fail
  with \<open>InvalidCommand\<close>, and the executor is returned as it was: nothing has been written
  to its input side.
\<close>

theorem forged_token_rejected:
  assumes "Contains command delimiter_prefix"
  shows "Execute e env command = ((None, Some InvalidCommand), e)
         \<and> written (stdin (snd (Execute e env command))) = written (stdin e)"
  using assms by (simp add: Execute_def Let_def)

theorem forged_token_rejected_witness:
  "Contains ''echo __MCP_SSH_END_1__:0'' delimiter_prefix
   \<and> Execute
        \<lparr>session = 1, stdin = \<lparr>written = [], broken = None\<rparr>,
         stdout = \<lparr>pending = [], failure = None\<rparr>,
         stderr = \<lparr>pending = [], failure = None\<rparr>\<rparr>
        \<lparr>UnixNano = 1, stderr_read = Inr [], timed_out = False\<rparr>
        ''echo __MCP_SSH_END_1__:0''
      = ((None, Some InvalidCommand),
         \<lparr>session = 1, stdin = \<lparr>written = [], broken = None\<rparr>,
          stdout = \<lparr>pending = [], failure = None\<rparr>,
          stderr = \<lparr>pending = [], failure = None\<rparr>\<rparr>)"
proof -
  have c: "Contains ''echo __MCP_SSH_END_1__:0'' delimiter_prefix"
    by code_simp
  from forged_token_rejected [OF c] c show ?thesis
    by simp
qed

text \<open>
  C10. \<open>NewShellExecutor\<close> returns either an executor and no error, or an error and no
  executor. With an error, either no session was ever created (\<open>NewSession\<close> itself
  failed), or the session was opened and the last thing done before the return is closing
  it: this covers the failures of the three pipes, of the shell start and of the write of
  the initialization directives. Without an error the executor holds the session, the
  shell has started, the directives are the last write on its input side and the session
  has not been closed.
\<close>

theorem init_failure_closes_session:
  assumes "NewShellExecutor w c = ((ex, err), fx)"
  shows "(case err of
            None \<Rightarrow>
              (\<exists>s e. NewSession w c = Inr s \<and> ex = Some e \<and> session e = s
                 \<and> Shell w s = None \<and> written (stdin e) \<noteq> []
                 \<and> last (written (stdin e)) = initCommands
                 \<and> list_all (\<lambda>x. x \<noteq> SessionClosed s (SessionClose w s)) fx)
          | Some er \<Rightarrow>
              ex = None \<and>
              (case NewSession w c of
                 Inl ce \<Rightarrow> er = SessionFailed ce \<and> fx = []
               | Inr s \<Rightarrow>
                   fx \<noteq> [] \<and> hd fx = SessionOpened c s
                   \<and> last fx = SessionClosed s (SessionClose w s)))"
  using assms
  by (auto simp: NewShellExecutor_def Write_def
      split: sum.splits option.splits prod.splits if_splits)

theorem init_failure_closes_session_witness:
  "NewShellExecutor
     (friendly_world
        \<lparr>StdinPipe := (\<lambda>s. Inr \<lparr>written = [], broken = Some ''EOF''\<rparr>),
         SessionClose := (\<lambda>s. Some ''EOF'')\<rparr>) 7
   = ((None, Some (InitWriteFailed ''EOF'')),
      [SessionOpened 7 1, ShellStarted 1, Slept shellInitialDrainDelay, Drained 1,
       SessionClosed 1 (Some ''EOF'')])
   \<and> last [SessionOpened 7 1, ShellStarted 1, Slept shellInitialDrainDelay, Drained 1,
            SessionClosed 1 (Some ''EOF'')]
      = SessionClosed 1 (Some ''EOF'')"
proof -
  let ?w = "friendly_world
        \<lparr>StdinPipe := (\<lambda>s. Inr \<lparr>written = [], broken = Some ''EOF''\<rparr>),
         SessionClose := (\<lambda>s. Some ''EOF'')\<rparr>"
  have eq: "NewShellExecutor ?w 7
   = ((None, Some (InitWriteFailed ''EOF'')),
      [SessionOpened 7 1, ShellStarted 1, Slept shellInitialDrainDelay, Drained 1,
       SessionClosed 1 (Some ''EOF'')])"
    by (simp add: NewShellExecutor_def friendly_world_def Write_def)
  have s: "NewSession ?w 7 = Inr 1" "SessionClose ?w 1 = Some ''EOF''"
    by (simp_all add: friendly_world_def)
  from init_failure_closes_session [OF eq] s eq show ?thesis
    by simp
qed

section \<open>The host allowlist\<close>

lemma compile_hosts_Inr:
  "compile_hosts Compile hosts pats = Inr ps \<longleftrightarrow>
     (\<forall>seg \<in> set (filter (\<lambda>seg. seg \<noteq> []) (map TrimSpace hosts)). \<not> isl (Compile seg))
     \<and> ps = pats @ map (\<lambda>seg. projr (Compile seg))
                     (filter (\<lambda>seg. seg \<noteq> []) (map TrimSpace hosts))"
proof (induction hosts arbitrary: pats)
  case Nil
  show ?case by auto
next
  case (Cons host hosts)
  show ?case
  proof (cases "TrimSpace host = []")
    case True
    then show ?thesis using Cons.IH [of pats] by simp
  next
    case False
    show ?thesis
    proof (cases "Compile (TrimSpace host)")
      case (Inl err)
      with False show ?thesis by simp
    next
      case (Inr pattern)
      with False show ?thesis using Cons.IH [of "pats @ [pattern]"] by simp
    qed
  qed
qed

lemma compile_hosts_isl:
  "isl (compile_hosts Compile hosts pats) \<longleftrightarrow>
     (\<exists>seg \<in> set (filter (\<lambda>seg. seg \<noteq> []) (map TrimSpace hosts)). isl (Compile seg))"
proof -
  have "isl (compile_hosts Compile hosts pats) \<longleftrightarrow> \<not> (\<exists>ps. compile_hosts Compile hosts pats = Inr ps)"
    by (cases "compile_hosts Compile hosts pats") auto
  then show ?thesis
    unfolding compile_hosts_Inr by auto
qed

text \<open>
  C4. For a validator that \<open>NewHostValidator\<close> has built from a specification, the
  patterns are the compiled surviving segments, and \<open>Validate\<close> accepts a host exactly when
  the host is not empty and some pattern matches it (membership in the set of patterns, so
  the order of the patterns does not matter). The construction fails exactly when the
  specification is empty, when no segment survives, or when some surviving segment does
  not compile.
\<close>

theorem allowlist_check:
  "(NewHostValidator Compile spec = Inr v \<longrightarrow>
      patterns v = map (\<lambda>seg. projr (Compile seg)) (surviving_segments spec)
      \<and> (Validate v host = None \<longleftrightarrow> host \<noteq> [] \<and> (\<exists>pattern \<in> set (patterns v). pattern host)))
   \<and> (isl (NewHostValidator Compile spec) \<longleftrightarrow>
        spec = [] \<or> surviving_segments spec = []
        \<or> (\<exists>seg \<in> set (surviving_segments spec). isl (Compile seg)))"
proof (intro conjI impI)
  assume ok: "NewHostValidator Compile spec = Inr v"
  then obtain ps where "compile_hosts Compile (Split spec (CHR '','')) [] = Inr ps"
    and "v = \<lparr>patterns = ps\<rparr>"
    by (auto simp: NewHostValidator_def split: if_splits sum.splits)
  then show "patterns v = map (\<lambda>seg. projr (Compile seg)) (surviving_segments spec)"
    by (simp add: compile_hosts_Inr surviving_segments_def)
next
  show "Validate v host = None \<longleftrightarrow> host \<noteq> [] \<and> (\<exists>pattern \<in> set (patterns v). pattern host)"
    by (auto simp: Validate_def list_ex_iff)
next
  show "isl (NewHostValidator Compile spec) \<longleftrightarrow>
        spec = [] \<or> surviving_segments spec = []
        \<or> (\<exists>seg \<in> set (surviving_segments spec). isl (Compile seg))"
  proof (cases "compile_hosts Compile (Split spec (CHR '','')) []")
    case (Inl err)
    then have "isl (compile_hosts Compile (Split spec (CHR '','')) [])" by simp
    then have "\<exists>seg \<in> set (surviving_segments spec). isl (Compile seg)"
      by (simp add: compile_hosts_isl surviving_segments_def)
    with Inl show ?thesis by (auto simp: NewHostValidator_def)
  next
    case (Inr ps)
    then have ps: "ps = map (\<lambda>seg. projr (Compile seg)) (surviving_segments spec)"
      and none: "\<forall>seg \<in> set (surviving_segments spec). \<not> isl (Compile seg)"
      by (simp_all add: compile_hosts_Inr surviving_segments_def)
    with Inr show ?thesis by (auto simp: NewHostValidator_def)
  qed
qed

theorem allowlist_check_witness:
  "\<not> isl (NewHostValidator (\<lambda>seg. if CHR ''['' \<in> set seg then Inl ''unexpected end of input''
                                   else Inr (\<lambda>host. host = seg))
            ''example.com, localhost'')
   \<and> Validate (projr (NewHostValidator
        (\<lambda>seg. if CHR ''['' \<in> set seg then Inl ''unexpected end of input''
                else Inr (\<lambda>host. host = seg)) ''example.com, localhost'')) ''localhost'' = None
   \<and> Validate (projr (NewHostValidator
        (\<lambda>seg. if CHR ''['' \<in> set seg then Inl ''unexpected end of input''
                else Inr (\<lambda>host. host = seg)) ''example.com, localhost'')) ''evil.com''
       \<noteq> None
   \<and> Validate (projr (NewHostValidator
        (\<lambda>seg. if CHR ''['' \<in> set seg then Inl ''unexpected end of input''
                else Inr (\<lambda>host. host = seg)) ''example.com, localhost'')) [] \<noteq> None
   \<and> isl (NewHostValidator (\<lambda>seg. if CHR ''['' \<in> set seg then Inl ''unexpected end of input''
                                   else Inr (\<lambda>host. host = seg)) '' , '')
   \<and> isl (NewHostValidator (\<lambda>seg. if CHR ''['' \<in> set seg then Inl ''unexpected end of input''
                                   else Inr (\<lambda>host. host = seg)) ''ok, b[ad'')"
proof -
  let ?C = "\<lambda>seg. if CHR ''['' \<in> set seg then Inl ''unexpected end of input''
                    else Inr (\<lambda>host. host = seg)"
  have s: "surviving_segments ''example.com, localhost'' = [''example.com'', ''localhost'']"
    "surviving_segments '' , '' = []"
    "surviving_segments ''ok, b[ad'' = [''ok'', ''b[ad'']"
    by code_simp+
  have ok: "\<not> isl (NewHostValidator ?C ''example.com, localhost'')"
    using allowlist_check [of ?C "''example.com, localhost''"] s(1) by simp
  then obtain v where v: "NewHostValidator ?C ''example.com, localhost'' = Inr v"
    by (cases "NewHostValidator ?C ''example.com, localhost''") auto
  have p: "patterns v = [\<lambda>host. host = ''example.com'', \<lambda>host. host = ''localhost'']"
    using allowlist_check [of ?C "''example.com, localhost''" v] v s(1) by simp
  have c1: "Validate v ''localhost'' = None"
    using allowlist_check [of ?C "''example.com, localhost''" v "''localhost''"] v p by simp
  have c2: "Validate v ''evil.com'' \<noteq> None"
    using allowlist_check [of ?C "''example.com, localhost''" v "''evil.com''"] v p by simp
  have c3: "Validate v [] \<noteq> None"
    using allowlist_check [of ?C "''example.com, localhost''" v "[]"] v by simp
  have f1: "isl (NewHostValidator ?C '' , '')"
    using allowlist_check [of ?C "'' , ''"] s(2) by simp
  have f2: "isl (NewHostValidator ?C ''ok, b[ad'')"
    using allowlist_check [of ?C "''ok, b[ad''"] s(3) by simp
  show ?thesis
    using ok c1 c2 c3 f1 f2 by (simp add: v)
qed

section \<open>The pools of the examples\<close>

lemma friendly_executor:
  "NewShellExecutor friendly_world c =
     ((Some \<lparr>session = 1, stdin = \<lparr>written = [initCommands], broken = None\<rparr>,
             stdout = \<lparr>pending = [], failure = None\<rparr>,
             stderr = \<lparr>pending = [], failure = None\<rparr>\<rparr>, None),
      [SessionOpened c 1, ShellStarted 1, Slept shellInitialDrainDelay, Drained 1,
       Slept shellInitCommandDelay, Drained 1])"
  by (simp add: NewShellExecutor_def friendly_world_def Write_def)

lemma local_validator_localhost: "Validate local_validator ''localhost'' = None"
  by (simp add: Validate_def local_validator_def)

lemma Connect_password:
  assumes "len (connections m) < MaxConnections"
    and "cid |\<notin>| fmdom (connections m)"
    and "Validate (validator m) host = None"
    and "password \<noteq> []"
    and "Dial w (JoinHostPort host (Sprintf_d port)) \<lparr>User = username, Auth = [Password password]\<rparr>
           = Inr c"
    and "NewShellExecutor w c = ((ex, None), fx)"
  shows "Connect w m cid host port username password [] =
           ((None,
             m\<lparr>connections :=
                 fmupd cid
                   \<lparr>Info = \<lparr>ID = cid, Host = host, Port = port, Username = username,
                             Created = Now w\<rparr>,
                    client = Some c, executor = ex\<rparr>
                   (connections m)\<rparr>),
            Dialed (JoinHostPort host (Sprintf_d port))
              \<lparr>User = username, Auth = [Password password]\<rparr> # fx)"
  using assms by (simp add: Connect_def Let_def)

lemma pool_id_inj: "pool_id i = pool_id j \<Longrightarrow> i = j"
  by (metis pool_id_def length_replicate nat.inject)

lemma pool_of_invariant:
  "n \<le> MaxConnections \<Longrightarrow>
     validator (pool_of n) = local_validator
     \<and> fmdom' (connections (pool_of n)) = pool_id ` {..<n}
     \<and> (\<forall>i < n. fmlookup (connections (pool_of n)) (pool_id i) = Some (pool_connection i))"
proof (induction n)
  case 0
  show ?case by (simp add: pool_of.simps NewManager_def)
next
  case (Suc n)
  then have IH: "validator (pool_of n) = local_validator"
    "fmdom' (connections (pool_of n)) = pool_id ` {..<n}"
    "\<forall>i < n. fmlookup (connections (pool_of n)) (pool_id i) = Some (pool_connection i)"
    by simp_all
  have "len (connections (pool_of n)) = card (pool_id ` {..<n})"
    using IH(2) by (simp add: len_def fcard.rep_eq fmdom'_alt_def)
  also have "\<dots> = n"
    by (simp add: card_image inj_on_def pool_id_inj)
  finally have sz: "len (connections (pool_of n)) < MaxConnections"
    using Suc.prems by simp
  have fresh: "pool_id n |\<notin>| fmdom (connections (pool_of n))"
    using IH(2) pool_id_inj by (auto simp: fmdom'_alt_def)
  have d: "Dial friendly_world (JoinHostPort ''localhost'' (Sprintf_d 22))
             \<lparr>User = ''root'', Auth = [Password ''pw'']\<rparr> = Inr 7"
    by (simp add: friendly_world_def)
  have step: "pool_of (Suc n) =
     (pool_of n)\<lparr>connections := fmupd (pool_id n) (pool_connection n) (connections (pool_of n))\<rparr>"
  proof -
    have v: "Validate (validator (pool_of n)) ''localhost'' = None"
      by (simp add: IH(1) local_validator_localhost)
    have pw: "''pw'' \<noteq> []" by simp
    show ?thesis
      using Connect_password [OF sz fresh v pw d friendly_executor]
      by (simp add: pool_of.simps pool_connection_def friendly_world_def)
  qed
  show ?case
    unfolding step using IH pool_id_inj by (auto simp: lessThan_Suc less_Suc_eq)
qed

lemma pool_of_len: "n \<le> MaxConnections \<Longrightarrow> len (connections (pool_of n)) = n"
proof -
  assume "n \<le> MaxConnections"
  then have "fmdom' (connections (pool_of n)) = pool_id ` {..<n}"
    by (simp add: pool_of_invariant)
  then have "len (connections (pool_of n)) = card (pool_id ` {..<n})"
    by (simp add: len_def fcard.rep_eq fmdom'_alt_def)
  also have "\<dots> = n"
    by (simp add: card_image inj_on_def pool_id_inj)
  finally show ?thesis .
qed

lemma pool_of_reachable: "reachable (pool_of n)"
  by (induction n) (auto simp: pool_of.simps intro: reachable.intros)

lemma pool_id_0: "pool_id 0 = ''a''"
  by (simp add: pool_id_def)

lemma pool_has_a: "0 < n \<Longrightarrow> n \<le> MaxConnections \<Longrightarrow> ''a'' |\<in>| fmdom (connections (pool_of n))"
  using pool_of_invariant [of n] pool_id_0 by (auto simp: fmlookup_dom_iff)

lemma new_manager_len: "len (connections (NewManager v)) = 0"
  by (simp add: NewManager_def len_def fcard_fempty)

section \<open>Closing a session\<close>

lemma one_le_max: "(1 :: nat) \<le> MaxConnections"
  by (simp add: MaxConnections_def)

lemma pool_1_a: "fmlookup (connections (pool_of 1)) ''a'' = Some (pool_connection 0)"
proof -
  have "\<forall>i<1. fmlookup (connections (pool_of 1)) (pool_id i) = Some (pool_connection i)"
    using pool_of_invariant [OF one_le_max] by blast
  then have "fmlookup (connections (pool_of 1)) (pool_id 0) = Some (pool_connection 0)"
    by blast
  then show ?thesis
    unfolding pool_id_0 .
qed

lemma pool_1_dom: "fmdom' (connections (pool_of 1)) = {''a''}"
proof -
  have "fmdom' (connections (pool_of 1)) = pool_id ` {..<1}"
    using pool_of_invariant [OF one_le_max] by blast
  also have "{..<(1::nat)} = {0}"
    by auto
  finally show ?thesis
    by (simp add: pool_id_0)
qed

lemma pool_1_b: "fmlookup (connections (pool_of 1)) ''b'' = None"
proof -
  have "''b'' \<notin> fmdom' (connections (pool_of 1))"
    unfolding pool_1_dom by simp
  then show ?thesis
    by (rule fmdom'_notD)
qed

lemma pool_1_len: "len (connections (pool_of 1)) = 1"
  by (rule pool_of_len [OF one_le_max])

lemma broken_teardown: "teardown broken_world (pool_connection 0)
       = [StdinClosed 1 (Some ''EOF''), SessionClosed 1 (Some ''EOF''),
          ClientClosed 7 (Some ''use of closed network connection'')]"
  by (simp add: teardown_def pool_connection_def Executor_Close_def broken_world_def
      friendly_world_def)

text \<open>
  C9. \<open>Manager.Close\<close> on an id that is not registered fails with \<open>NotFound\<close> and leaves
  the manager and the world as they are. On a registered id it returns no error and
  removes the entry, in every world: whatever the teardown calls of the executor and the
  client return, their results only appear among the effects.
\<close>

theorem close_removes_entry:
  "(fmlookup (connections m) cid = None \<longrightarrow>
      Manager_Close w m cid = ((Some (NotFound cid), m), []))
   \<and> (fmlookup (connections m) cid = Some conn \<longrightarrow>
        Manager_Close w m cid
          = ((None, m\<lparr>connections := fmdrop cid (connections m)\<rparr>), teardown w conn)
        \<and> fmlookup (connections (snd (fst (Manager_Close w m cid)))) cid = None
        \<and> len (connections (snd (fst (Manager_Close w m cid)))) = len (connections m) - 1)"
  by (auto simp: Manager_Close_def len_def fmlookup_dom_iff fmdom_notI)

theorem close_removes_entry_witness:
  "fmlookup (connections (pool_of 1)) ''a'' = Some (pool_connection 0)
   \<and> fst (fst (Manager_Close broken_world (pool_of 1) ''a'')) = None
   \<and> snd (Manager_Close broken_world (pool_of 1) ''a'')
       = [StdinClosed 1 (Some ''EOF''), SessionClosed 1 (Some ''EOF''),
          ClientClosed 7 (Some ''use of closed network connection'')]
   \<and> fmlookup (connections (snd (fst (Manager_Close broken_world (pool_of 1) ''a'')))) ''a''
       = None
   \<and> len (connections (snd (fst (Manager_Close broken_world (pool_of 1) ''a'')))) = 0
   \<and> fmlookup (connections (pool_of 1)) ''b'' = None
   \<and> Manager_Close broken_world (pool_of 1) ''b'' = ((Some (NotFound ''b''), pool_of 1), [])"
proof -
  note c1 = close_removes_entry [of "pool_of 1" "''a''" broken_world "pool_connection 0",
      THEN conjunct2, rule_format, OF pool_1_a]
  note c2 = close_removes_entry [of "pool_of 1" "''b''" broken_world "pool_connection 0",
      THEN conjunct1, rule_format, OF pool_1_b]
  have e: "fst (fst (Manager_Close broken_world (pool_of 1) ''a'')) = None"
    "snd (Manager_Close broken_world (pool_of 1) ''a'')
       = [StdinClosed 1 (Some ''EOF''), SessionClosed 1 (Some ''EOF''),
          ClientClosed 7 (Some ''use of closed network connection'')]"
    using c1 [THEN conjunct1] broken_teardown by simp_all
  have z: "len (connections (snd (fst (Manager_Close broken_world (pool_of 1) ''a'')))) = 0"
    using c1 [THEN conjunct2, THEN conjunct2] pool_1_len by simp
  show ?thesis
    using pool_1_a pool_1_b e z c1 c2 by blast
qed

section \<open>The capacity of the registry\<close>

lemma len_fmupd: "len (fmupd k v cs) = (if k |\<in>| fmdom cs then len cs else Suc (len cs))"
  by (simp add: len_def fcard_finsert_if)

lemma len_fmdrop: "len (fmdrop k cs) \<le> len cs"
  by (simp add: len_def fcard_fminus1_le)

lemma Connect_registry:
  "connections (snd (fst (Connect w m cid host port username password privateKeyPath)))
     = connections m
   \<or> (len (connections m) < MaxConnections \<and> cid |\<notin>| fmdom (connections m)
      \<and> (\<exists>conn. connections
                    (snd (fst (Connect w m cid host port username password privateKeyPath)))
                  = fmupd cid conn (connections m)))"
  by (auto simp: Connect_def Let_def split: option.splits sum.splits prod.splits)

lemma Connect_len:
  assumes "len (connections m) \<le> MaxConnections"
  shows "len (connections (snd (fst (Connect w m cid host port username password privateKeyPath))))
           \<le> MaxConnections"
  using Connect_registry [of w m cid host port username password privateKeyPath] assms
  by (auto simp: len_fmupd)

lemma Manager_Execute_len:
  "len (connections (snd (Manager_Execute m env cid command))) = len (connections m)"
  by (auto simp: Manager_Execute_def len_fmupd fmdomI split: option.splits prod.splits)

lemma Manager_Close_len:
  "len (connections (snd (fst (Manager_Close w m cid)))) \<le> len (connections m)"
  by (auto simp: Manager_Close_def len_fmdrop split: option.splits)

lemma CloseAll_len: "len (connections (fst (CloseAll w m))) = 0"
  by (simp add: CloseAll_def len_def fcard_fempty)

lemma reachable_len: "reachable m \<Longrightarrow> len (connections m) \<le> MaxConnections"
proof (induction rule: reachable.induct)
  case (reachable_new v)
  show ?case by (simp add: NewManager_def len_def fcard_fempty)
next
  case (reachable_connect m w cid host port username password privateKeyPath m')
  then show ?case using Connect_len by blast
next
  case (reachable_execute m env cid command m')
  then show ?case using Manager_Execute_len by metis
next
  case (reachable_close m w cid m')
  then show ?case using Manager_Close_len le_trans by blast
next
  case (reachable_closeAll m w m')
  then show ?case using CloseAll_len by (metis le0)
qed

text \<open>
  C6. The maximum is 100. In every reachable pool state the registry holds at most that
  many entries, and a \<open>Connect\<close> on a registry that holds the maximum (or more) fails with
  \<open>CapacityExceeded\<close>, returns the manager unchanged and does nothing to the world.
\<close>

theorem registry_bounded:
  "MaxConnections = 100
   \<and> (reachable m \<longrightarrow> len (connections m) \<le> MaxConnections)
   \<and> (len (connections m') \<ge> MaxConnections \<longrightarrow>
        Connect w m' cid host port username password privateKeyPath
          = ((Some (CapacityExceeded (len (connections m')) MaxConnections), m'), []))"
  using reachable_len [of m] by (simp add: MaxConnections_def Connect_def)

theorem registry_bounded_witness:
  "reachable (pool_of 100) \<and> len (connections (pool_of 100)) = 100
   \<and> Connect friendly_world (pool_of 100) ''fresh'' ''localhost'' 22 ''root'' ''pw'' []
       = ((Some (CapacityExceeded 100 100), pool_of 100), [])"
proof -
  have r: "reachable (pool_of 100)"
    by (rule pool_of_reachable)
  have l: "len (connections (pool_of 100)) = 100"
    by (rule pool_of_len) (simp add: MaxConnections_def)
  from registry_bounded [of "pool_of 100" "pool_of 100" friendly_world "''fresh''"
      "''localhost''" 22 "''root''" "''pw''" "[]"] r l
  show ?thesis by (simp add: MaxConnections_def)
qed

text \<open>
  C1, as the code has it. \<open>Connect\<close> with an id that is already registered always fails,
  leaves the manager (the existing session and the size of the registry) unchanged and
  does nothing to the world. Below the capacity maximum the error is \<open>DuplicateID\<close>; at
  the maximum the capacity check, which comes first in the source, answers, and the error
  is \<open>CapacityExceeded\<close>.
\<close>

theorem duplicate_id_rejected:
  "cid |\<in>| fmdom (connections m) \<longrightarrow>
     (len (connections m) < MaxConnections \<longrightarrow>
        Connect w m cid host port username password privateKeyPath
          = ((Some (DuplicateID cid), m), []))
     \<and> (len (connections m) \<ge> MaxConnections \<longrightarrow>
          Connect w m cid host port username password privateKeyPath
            = ((Some (CapacityExceeded (len (connections m)) MaxConnections), m), []))"
  by (simp add: Connect_def)

text \<open>
  C1 as stated fails at the capacity maximum: the pool after one hundred successful
  calls of \<open>Connect\<close> is reachable, holds the id \<open>a\<close>, and a further \<open>Connect\<close> with the
  id \<open>a\<close> fails with \<open>CapacityExceeded\<close>, not with \<open>DuplicateID\<close>.
\<close>

theorem duplicate_id_at_capacity_counterexample:
  "reachable (pool_of 100) \<and> ''a'' |\<in>| fmdom (connections (pool_of 100))
   \<and> len (connections (pool_of 100)) = 100
   \<and> Connect friendly_world (pool_of 100) ''a'' ''localhost'' 22 ''root'' ''pw'' []
       = ((Some (CapacityExceeded 100 100), pool_of 100), [])
   \<and> fst (fst (Connect friendly_world (pool_of 100) ''a'' ''localhost'' 22 ''root'' ''pw'' []))
       \<noteq> Some (DuplicateID ''a'')"
proof -
  have l: "len (connections (pool_of 100)) = 100"
    by (rule pool_of_len) (simp add: MaxConnections_def)
  have a: "''a'' |\<in>| fmdom (connections (pool_of 100))"
    by (rule pool_has_a) (simp_all add: MaxConnections_def)
  have c: "Connect friendly_world (pool_of 100) ''a'' ''localhost'' 22 ''root'' ''pw'' []
       = ((Some (CapacityExceeded 100 100), pool_of 100), [])"
    using l by (simp add: Connect_def MaxConnections_def)
  show ?thesis
    using pool_of_reachable [of 100] l a c by simp
qed

theorem duplicate_id_rejected_witness:
  "''a'' |\<in>| fmdom (connections (pool_of 2)) \<and> len (connections (pool_of 2)) = 2
   \<and> Connect friendly_world (pool_of 2) ''a'' ''localhost'' 22 ''root'' ''pw'' []
       = ((Some (DuplicateID ''a''), pool_of 2), [])
   \<and> ''a'' |\<in>| fmdom (connections (pool_of 100)) \<and> len (connections (pool_of 100)) = 100
   \<and> Connect friendly_world (pool_of 100) ''a'' ''localhost'' 22 ''root'' ''pw'' []
       = ((Some (CapacityExceeded 100 100), pool_of 100), [])"
proof -
  have l: "len (connections (pool_of 100)) = 100" "len (connections (pool_of 2)) = 2"
    by (rule pool_of_len, simp add: MaxConnections_def)+
  have a: "''a'' |\<in>| fmdom (connections (pool_of 100))" "''a'' |\<in>| fmdom (connections (pool_of 2))"
    by (rule pool_has_a, simp_all add: MaxConnections_def)+
  from duplicate_id_rejected [of "''a''" "pool_of 2" friendly_world "''localhost''" 22 "''root''" "''pw''" "[]"]
    duplicate_id_rejected [of "''a''" "pool_of 100" friendly_world "''localhost''" 22 "''root''" "''pw''" "[]"]
    l a
  show ?thesis by (simp add: MaxConnections_def)
qed

section \<open>Authentication methods\<close>

lemma Connect_no_auth:
  assumes "password = []" and "privateKeyPath = []"
  shows "\<exists>err. Connect w m cid host port username password privateKeyPath = ((Some err, m), [])"
  using assms by (simp add: Connect_def Let_def split: option.splits)

lemma HandleConnect_no_auth:
  assumes "GetString password_arg [] = []" and "GetString key_arg [] = []"
  shows "\<exists>err. HandleConnect w m cid_arg host_arg username_arg port_arg password_arg key_arg
           = ((Some err, m), [])"
  using assms
  by (simp add: HandleConnect_def Let_def validateAuthMethod_def split: option.splits)

lemma Connect_both_dials:
  assumes "len (connections m) < MaxConnections"
    and "cid |\<notin>| fmdom (connections m)"
    and "Validate (validator m) host = None"
    and "password \<noteq> []" and "privateKeyPath \<noteq> []"
    and "ReadFile w privateKeyPath = Inr keyData"
    and "ParsePrivateKey w keyData = Inr sg"
  shows "Dialed (JoinHostPort host (Sprintf_d port))
           \<lparr>User = username, Auth = [Password password, PublicKeys sg]\<rparr>
         \<in> set (snd (Connect w m cid host port username password privateKeyPath))"
  using assms
  by (simp add: Connect_def Let_def split: sum.splits prod.splits option.splits)

text \<open>
  C8, as the code has it: at least one of password and key path. \<open>validateAuthMethod\<close>
  accepts exactly the requests that carry a password or a key path. With neither,
  \<open>Connect\<close> and \<open>HandleConnect\<close> both fail, leave the manager unchanged and do nothing
  to the world, so nothing is dialed. With both, the check passes, and a \<open>Connect\<close>
  that gets past the capacity, id and host checks and can read and parse the key dials
  with the two methods, the password first.
\<close>

theorem auth_method_required:
  "(validateAuthMethod password privateKeyPath = None \<longleftrightarrow> password \<noteq> [] \<or> privateKeyPath \<noteq> [])
   \<and> (password = [] \<and> privateKeyPath = [] \<longrightarrow>
        (\<exists>err. Connect w m cid host port username password privateKeyPath = ((Some err, m), [])))
   \<and> (GetString password_arg [] = [] \<and> GetString key_arg [] = [] \<longrightarrow>
        (\<exists>err. HandleConnect w m cid_arg host_arg username_arg port_arg password_arg key_arg
                 = ((Some err, m), [])))
   \<and> (password \<noteq> [] \<and> privateKeyPath \<noteq> []
        \<and> len (connections m) < MaxConnections \<and> cid |\<notin>| fmdom (connections m)
        \<and> Validate (validator m) host = None
        \<and> ReadFile w privateKeyPath = Inr keyData \<and> ParsePrivateKey w keyData = Inr sg \<longrightarrow>
        Dialed (JoinHostPort host (Sprintf_d port))
          \<lparr>User = username, Auth = [Password password, PublicKeys sg]\<rparr>
        \<in> set (snd (Connect w m cid host port username password privateKeyPath)))"
  using Connect_no_auth [of password privateKeyPath w m cid host port username]
    HandleConnect_no_auth [of password_arg key_arg w m cid_arg host_arg username_arg port_arg]
    Connect_both_dials [of m cid host password privateKeyPath w keyData sg port username]
  by (auto simp: validateAuthMethod_def)

theorem auth_method_required_witness:
  "validateAuthMethod [] [] \<noteq> None
   \<and> Connect friendly_world (NewManager local_validator) ''web'' ''localhost'' 22 ''root'' [] []
       = ((Some NoAuthMethod, NewManager local_validator), [])
   \<and> HandleConnect friendly_world (NewManager local_validator) (Some ''web'')
        (Some ''localhost'') (Some ''root'') None None (Some [])
       = ((Some AuthMissing, NewManager local_validator), [])
   \<and> validateAuthMethod ''pw'' ''/home/u/.ssh/id_ed25519'' = None
   \<and> Dialed (JoinHostPort ''localhost'' (Sprintf_d 22))
        \<lparr>User = ''root'', Auth = [Password ''pw'', PublicKeys ''key material'']\<rparr>
      \<in> set (snd (Connect friendly_world (NewManager local_validator) ''web'' ''localhost'' 22
                    ''root'' ''pw'' ''/home/u/.ssh/id_ed25519''))"
proof -
  let ?m = "NewManager local_validator"
  have v: "Validate (validator ?m) ''localhost'' = None"
    by (simp add: NewManager_def local_validator_localhost)
  have sz: "len (connections ?m) < MaxConnections"
    by (simp add: new_manager_len MaxConnections_def)
  have fresh: "''web'' |\<notin>| fmdom (connections ?m)"
    by (simp add: NewManager_def)
  have f: "ReadFile friendly_world ''/home/u/.ssh/id_ed25519'' = Inr ''key material''"
    "ParsePrivateKey friendly_world ''key material'' = Inr ''key material''"
    by (simp_all add: friendly_world_def)
  have a: "validateConnectionID ''web'' = None"
    by code_simp
  have b: "TrimSpace ''localhost'' = ''localhost''" "TrimSpace ''root'' = ''root''"
    by code_simp+
  have c: "validatePort 22 = None"
    by (simp add: validatePort_def)
  have n1: "Connect friendly_world ?m ''web'' ''localhost'' 22 ''root'' [] []
       = ((Some NoAuthMethod, ?m), [])"
    using v sz fresh by (simp add: Connect_def)
  have n2: "HandleConnect friendly_world ?m (Some ''web'') (Some ''localhost'') (Some ''root'')
              None None (Some [])
       = ((Some AuthMissing, ?m), [])"
    by (simp add: HandleConnect_def a b c GetString_def validateAuthMethod_def)
  have g: "GetString None [] = []" "GetString (Some []) [] = []"
    by (simp_all add: GetString_def)
  from auth_method_required [of "[]" "[]" friendly_world ?m "''web''" "''localhost''" 22
      "''root''" None "Some []" "Some ''web''" "Some ''localhost''" "Some ''root''" None]
  have w1: "validateAuthMethod [] [] \<noteq> None"
    by simp
  from auth_method_required [of "''pw''" "''/home/u/.ssh/id_ed25519''" friendly_world ?m
      "''web''" "''localhost''" 22 "''root''" None None None None None None
      "''key material''" "''key material''"]
    v sz fresh f
  have w2: "validateAuthMethod ''pw'' ''/home/u/.ssh/id_ed25519'' = None"
    "Dialed (JoinHostPort ''localhost'' (Sprintf_d 22))
        \<lparr>User = ''root'', Auth = [Password ''pw'', PublicKeys ''key material'']\<rparr>
      \<in> set (snd (Connect friendly_world ?m ''web'' ''localhost'' 22
                    ''root'' ''pw'' ''/home/u/.ssh/id_ed25519''))"
    by simp_all
  show ?thesis
    using w1 w2 n1 n2 by simp
qed

lemma both_connect:
  "Connect friendly_world (NewManager local_validator) ''web'' ''localhost'' 22 ''root'' ''pw''
     ''/home/u/.ssh/id_ed25519''
   = ((None,
       \<lparr>connections =
          fmupd ''web''
            \<lparr>Info = \<lparr>ID = ''web'', Host = ''localhost'', Port = 22, Username = ''root'',
                      Created = 0\<rparr>,
             client = Some 7,
             executor =
               Some \<lparr>session = 1, stdin = \<lparr>written = [initCommands], broken = None\<rparr>,
                     stdout = \<lparr>pending = [], failure = None\<rparr>,
                     stderr = \<lparr>pending = [], failure = None\<rparr>\<rparr>\<rparr>
            fmempty,
        validator = local_validator\<rparr>),
      [FileRead ''/home/u/.ssh/id_ed25519'',
       Dialed (JoinHostPort ''localhost'' (Sprintf_d 22))
         \<lparr>User = ''root'', Auth = [Password ''pw'', PublicKeys ''key material'']\<rparr>,
       SessionOpened 7 1, ShellStarted 1, Slept shellInitialDrainDelay, Drained 1,
       Slept shellInitCommandDelay, Drained 1])"
proof -
  have f: "ReadFile friendly_world ''/home/u/.ssh/id_ed25519'' = Inr ''key material''"
    "ParsePrivateKey friendly_world ''key material'' = Inr ''key material''"
    "Dial friendly_world (JoinHostPort ''localhost'' (Sprintf_d 22))
       \<lparr>User = ''root'', Auth = [Password ''pw'', PublicKeys ''key material'']\<rparr> = Inr 7"
    "Now friendly_world = 0"
    by (simp_all add: friendly_world_def)
  have v: "Validate (validator (NewManager local_validator)) ''localhost'' = None"
    by (simp add: NewManager_def local_validator_localhost)
  show ?thesis
    unfolding Connect_def
    by (simp add: new_manager_len MaxConnections_def v f friendly_executor)
       (simp add: NewManager_def)
qed

text \<open>
  C8 as stated fails for a request that carries both a password and a key path: the
  authentication check lets it through, \<open>HandleConnect\<close> returns the success response,
  the connection is registered, and the dial offers both methods.
\<close>

theorem both_credentials_accepted_counterexample:
  "validateAuthMethod ''pw'' ''/home/u/.ssh/id_ed25519'' = None
   \<and> fst (fst (HandleConnect friendly_world (NewManager local_validator) (Some ''web'')
                 (Some ''localhost'') (Some ''root'') None (Some ''pw'')
                 (Some ''/home/u/.ssh/id_ed25519''))) = None
   \<and> ''web'' |\<in>| fmdom (connections (snd (fst
         (HandleConnect friendly_world (NewManager local_validator) (Some ''web'')
            (Some ''localhost'') (Some ''root'') None (Some ''pw'')
            (Some ''/home/u/.ssh/id_ed25519'')))))
   \<and> Dialed (JoinHostPort ''localhost'' (Sprintf_d 22))
         \<lparr>User = ''root'', Auth = [Password ''pw'', PublicKeys ''key material'']\<rparr>
       \<in> set (snd (HandleConnect friendly_world (NewManager local_validator) (Some ''web'')
                     (Some ''localhost'') (Some ''root'') None (Some ''pw'')
                     (Some ''/home/u/.ssh/id_ed25519'')))"
proof -
  have a: "validateConnectionID ''web'' = None"
    by code_simp
  have b: "TrimSpace ''localhost'' = ''localhost''" "TrimSpace ''root'' = ''root''"
    by code_simp+
  have c: "validatePort 22 = None"
    by (simp add: validatePort_def)
  have d: "validateAuthMethod ''pw'' ''/home/u/.ssh/id_ed25519'' = None"
    by (simp add: validateAuthMethod_def)
  show ?thesis
    by (simp add: HandleConnect_def a b c d GetString_def both_connect)
qed

section \<open>The output size\<close>

lemma Contains_hd: "Contains s sub \<Longrightarrow> sub \<noteq> [] \<Longrightarrow> hd sub \<in> set s"
  by (induction s) (auto simp: prefix_def Cons_eq_append_conv)

lemma rune_width_plain:
  "c \<notin> set (map hd runes) \<Longrightarrow> [] \<notin> set runes \<Longrightarrow> rune_width runes (c # cs) = 0"
proof -
  assume c: "c \<notin> set (map hd runes)" and ne: "[] \<notin> set runes"
  have "find (\<lambda>e. prefix e (c # cs)) runes = None"
  proof (rule ccontr)
    assume "find (\<lambda>e. prefix e (c # cs)) runes \<noteq> None"
    then obtain e where "e \<in> set runes" and p: "prefix e (c # cs)"
      by (auto simp: find_None_iff)
    with ne have "e \<noteq> []" by auto
    with p have "hd e = c" by (cases e) auto
    with \<open>e \<in> set runes\<close> c show False by auto
  qed
  then show ?thesis by (simp add: rune_width_def)
qed

lemma TrimSpace_letters:
  "TrimSpace (replicate (Suc n) (CHR ''a'') @ [CHR 0x0A]) = replicate (Suc n) (CHR ''a'')"
proof -
  have w0: "rune_width space_runes (CHR ''a'' # cs) = 0" for cs
    by (rule rune_width_plain) (simp_all add: space_runes_def)
  have w0r: "rune_width (map rev space_runes) (CHR ''a'' # cs) = 0" for cs
    by (rule rune_width_plain) (simp_all add: space_runes_def)
  have w1: "rune_width (map rev space_runes) (CHR 0x0A # cs) = 1" for cs
    by (simp add: rune_width_def space_runes_def)
  have left: "trim_runes space_runes (replicate (Suc n) (CHR ''a'') @ [CHR 0x0A])
                = replicate (Suc n) (CHR ''a'') @ [CHR 0x0A]"
    by (subst trim_runes.simps) (simp add: w0)
  have "trim_runes (map rev space_runes) (CHR 0x0A # CHR ''a'' # replicate n (CHR ''a''))
          = trim_runes (map rev space_runes) (CHR ''a'' # replicate n (CHR ''a''))"
    by (subst trim_runes.simps) (simp add: w1)
  also have "\<dots> = CHR ''a'' # replicate n (CHR ''a'')"
    by (subst trim_runes.simps) (simp add: w0r)
  finally have right:
    "trim_runes (map rev space_runes) (CHR 0x0A # CHR ''a'' # replicate n (CHR ''a''))
       = CHR ''a'' # replicate n (CHR ''a'')" .
  have "rev (replicate (Suc n) (CHR ''a'') @ [CHR 0x0A]) = CHR 0x0A # CHR ''a'' # replicate n (CHR ''a'')"
    by (simp add: replicate_append_same)
  then show ?thesis
    unfolding TrimSpace_def left by (simp add: right replicate_append_same)
qed

lemma Execute_success:
  assumes "\<not> Contains command delimiter_prefix"
    and "broken (stdin e) = None"
    and "d = delimiter_prefix @ Sprintf_d (UnixNano env) @ ''__''"
    and "pending (stdout e) = concat ls @ line @ rest"
    and "\<forall>l \<in> set ls. is_line l \<and> \<not> Contains l d"
    and "is_line line" and "Contains line d"
    and "\<not> timed_out env" and "stderr_read env = Inr errout"
  shows "fst (Execute e env command) =
           (Some \<lparr>Stdout = TrimSpace (concat ls), Stderr = TrimSpace errout,
                  ExitCode = (case spec_parse_exit line of None \<Rightarrow> 0 | Some n \<Rightarrow> n)\<rparr>,
            None)"
proof -
  note rd = readUntilDelimiter_token [OF assms(4) assms(5) assms(6) assms(7)]
  show ?thesis
    using assms(1,2,8,9) rd
    by (simp add: Execute_def Let_def Write_def assms(3) [symmetric])
qed

text \<open>
  C7, the code at an output larger than the cap. \<open>maxOutputSize\<close> is 10485760 and no
  function uses it. A primary stream of one line of 10485761 letters followed by the
  token line makes \<open>Execute\<close> return all 10485761 bytes as \<open>Stdout\<close>: one more than the
  cap, neither cut nor refused.
\<close>

theorem output_cap_not_enforced:
  "maxOutputSize = 10485760
   \<and> fst (Execute
            \<lparr>session = 1, stdin = \<lparr>written = [], broken = None\<rparr>,
             stdout = \<lparr>pending = replicate 10485761 (CHR ''a'') @ [CHR 0x0A]
                                  @ ''__MCP_SSH_END_1__:0'' @ [CHR 0x0A],
                       failure = None\<rparr>,
             stderr = \<lparr>pending = [], failure = None\<rparr>\<rparr>
            \<lparr>UnixNano = 1, stderr_read = Inr [], timed_out = False\<rparr>
            ''cat big.txt'')
      = (Some \<lparr>Stdout = replicate 10485761 (CHR ''a''), Stderr = [], ExitCode = 0\<rparr>, None)
   \<and> length (replicate 10485761 (CHR ''a'')) = maxOutputSize + 1"
proof -
  let ?d = "''__MCP_SSH_END_1__''"
  let ?big = "replicate (Suc 10485760) (CHR ''a'') @ [CHR 0x0A]"
  let ?env = "\<lparr>UnixNano = 1, stderr_read = Inr [], timed_out = False\<rparr>"
  let ?e = "\<lparr>session = 1, stdin = \<lparr>written = [], broken = None\<rparr>,
             stdout = \<lparr>pending = ?big @ ''__MCP_SSH_END_1__:0'' @ [CHR 0x0A], failure = None\<rparr>,
             stderr = \<lparr>pending = [], failure = None\<rparr>\<rparr>"
  have cmd: "\<not> Contains ''cat big.txt'' delimiter_prefix"
    by code_simp
  have d: "?d = delimiter_prefix @ Sprintf_d (UnixNano ?env) @ ''__''"
    by code_simp
  have tok: "is_line (''__MCP_SSH_END_1__:0'' @ [CHR 0x0A])"
    "Contains (''__MCP_SSH_END_1__:0'' @ [CHR 0x0A]) ?d"
    "spec_parse_exit (''__MCP_SSH_END_1__:0'' @ [CHR 0x0A]) = Some 0"
    "TrimSpace [] = []"
    by code_simp+
  have big1: "is_line ?big"
    by (simp add: is_line_def)
  have big2: "\<not> Contains ?big ?d"
  proof
    assume "Contains ?big ?d"
    then have "hd ?d \<in> set ?big" by (rule Contains_hd) simp
    then show False by simp
  qed
  have q: "\<forall>l \<in> set [?big]. is_line l \<and> \<not> Contains l ?d"
    using big1 big2 by simp
  have p: "pending (stdout ?e) = concat [?big] @ (''__MCP_SSH_END_1__:0'' @ [CHR 0x0A]) @ []"
    by simp
  have ex: "fst (Execute ?e ?env ''cat big.txt'') =
      (Some \<lparr>Stdout = TrimSpace (concat [?big]), Stderr = TrimSpace [],
             ExitCode = (case spec_parse_exit (''__MCP_SSH_END_1__:0'' @ [CHR 0x0A]) of
                           None \<Rightarrow> 0 | Some n \<Rightarrow> n)\<rparr>, None)"
    by (rule Execute_success [OF cmd _ d p q tok(1) tok(2)]) simp_all
  have t: "TrimSpace (replicate 10485761 (CHR ''a'') @ [CHR 0x0A]) = replicate 10485761 (CHR ''a'')"
    using TrimSpace_letters [of 10485760] by simp
  show ?thesis
    using ex t tok(3) tok(4) by (simp add: maxOutputSize_def)
qed

end
